theory Spec2Isabelle
  imports Complex_Main
begin

section \<open>The AMS backend (backend/main.py) as HOL functions\<close>

text \<open>
  The module builds one FastAPI application, puts a CORS middleware in front of it,
  registers five GET handlers and, when run as a script, starts uvicorn on the port read
  from the environment. Handlers are modelled as functions from the clock reading they
  take (\<open>datetime.utcnow()\<close>) to the dictionary they return; the framework calls that
  the module makes (route registration, dispatch, the middleware, \<open>int\<close>,
  \<open>os.getenv\<close>, \<open>isoformat\<close>) are modelled after the library code they run.
\<close>

subsection \<open>Python values returned by the handlers\<close>

text \<open>
  A handler returns a dict literal with string keys. Key order is the order of the
  literal, so an object is an association list. The only floats of the module are the
  literals \<open>0.0\<close>, which denote the real number zero.
\<close>

datatype json =
    JNull
  | JBool bool
  | JInt int
  | JFloat real
  | JStr string
  | JList "json list"
  | JObj "(string \<times> json) list"

fun obj_get :: "json \<Rightarrow> string \<Rightarrow> json option" where
  "obj_get (JObj kvs) k = map_of kvs k"
| "obj_get _ k = None"

fun obj_keys :: "json \<Rightarrow> string list" where
  "obj_keys (JObj kvs) = map fst kvs"
| "obj_keys _ = []"

fun obj_del :: "string \<Rightarrow> json \<Rightarrow> json" where
  "obj_del k (JObj kvs) = JObj (filter (\<lambda>kv. fst kv \<noteq> k) kvs)"
| "obj_del k v = v"

subsection \<open>datetime and isoformat\<close>

text \<open>
  \<open>datetime.utcnow()\<close> returns a naive datetime (no time zone). Its fields obey the
  class invariant checked by the constructor: \<open>valid_datetime\<close>.
\<close>

record datetime =
  year :: nat
  month :: nat
  day :: nat
  hour :: nat
  minute :: nat
  second :: nat
  microsecond :: nat

definition is_leap :: "nat \<Rightarrow> bool" where
  "is_leap y = (y mod 4 = 0 \<and> (y mod 100 \<noteq> 0 \<or> y mod 400 = 0))"

definition days_in_month :: "nat \<Rightarrow> nat \<Rightarrow> nat" where
  "days_in_month y m =
     (if m = 2 then (if is_leap y then 29 else 28)
      else if m = 4 \<or> m = 6 \<or> m = 9 \<or> m = 11 then 30 else 31)"

definition valid_datetime :: "datetime \<Rightarrow> bool" where
  "valid_datetime d =
     (1 \<le> year d \<and> year d \<le> 9999 \<and> 1 \<le> month d \<and> month d \<le> 12
      \<and> 1 \<le> day d \<and> day d \<le> days_in_month (year d) (month d)
      \<and> hour d < 24 \<and> minute d < 60 \<and> second d < 60 \<and> microsecond d < 1000000)"

definition digit_char :: "nat \<Rightarrow> char" where
  "digit_char d = char_of (48 + d)"

text \<open>The decimal numeral of a natural number, as \<open>%d\<close> prints it.\<close>

fun show_nat :: "nat \<Rightarrow> string" where
  "show_nat n =
     (if n < 10 then [digit_char n] else show_nat (n div 10) @ [digit_char (n mod 10)])"

declare show_nat.simps [simp del]

text \<open>\<open>"%0wd" % n\<close>: the numeral, filled with zeros on the left up to width \<open>w\<close>.\<close>

definition format_d :: "nat \<Rightarrow> nat \<Rightarrow> string" where
  "format_d w n = replicate (w - length (show_nat n)) (CHR ''0'') @ show_nat n"

text \<open>
  \<open>datetime.isoformat()\<close> with its defaults (\<open>sep='T'\<close>, \<open>timespec='auto'\<close>) on a
  naive datetime: the fraction is printed only when the microseconds are not zero, and
  there is no offset.
\<close>

definition isoformat :: "datetime \<Rightarrow> string" where
  "isoformat d =
     format_d 4 (year d) @ ''-'' @ format_d 2 (month d) @ ''-'' @ format_d 2 (day d)
     @ ''T'' @ format_d 2 (hour d) @ '':'' @ format_d 2 (minute d) @ '':''
     @ format_d 2 (second d)
     @ (if microsecond d = 0 then [] else ''.'' @ format_d 6 (microsecond d))"

subsection \<open>Reading an ISO-8601 datetime\<close>

text \<open>
  The reader used to state that a timestamp parses: the extended format
  \<open>YYYY-MM-DDTHH:MM:SS\<close> with an optional fraction of six digits, whose fields form a
  valid datetime.
\<close>

definition digit_val :: "char \<Rightarrow> nat option" where
  "digit_val c =
     (let k = (of_char c :: nat) in if 48 \<le> k \<and> k \<le> 57 then Some (k - 48) else None)"

fun take_digits :: "nat \<Rightarrow> nat \<Rightarrow> string \<Rightarrow> (nat \<times> string) option" where
  "take_digits 0 acc s = Some (acc, s)"
| "take_digits (Suc w) acc [] = None"
| "take_digits (Suc w) acc (c # s) =
     (case digit_val c of None \<Rightarrow> None | Some d \<Rightarrow> take_digits w (acc * 10 + d) s)"

fun expect :: "char \<Rightarrow> string \<Rightarrow> string option" where
  "expect c [] = None"
| "expect c (x # s) = (if x = c then Some s else None)"

definition parse_fraction :: "string \<Rightarrow> nat option" where
  "parse_fraction s =
     (if s = [] then Some 0
      else Option.bind (expect (CHR ''.'') s) (\<lambda>s1.
           Option.bind (take_digits 6 0 s1) (\<lambda>(us, rest).
           if rest = [] then Some us else None)))"

text \<open>A field of \<open>w\<close> digits followed by the separator \<open>c\<close>.\<close>

definition parse_field :: "nat \<Rightarrow> char \<Rightarrow> string \<Rightarrow> (nat \<times> string) option" where
  "parse_field w c s =
     Option.bind (take_digits w 0 s) (\<lambda>(n, s1).
     Option.bind (expect c s1) (\<lambda>s2. Some (n, s2)))"

definition parse_date :: "string \<Rightarrow> ((nat \<times> nat \<times> nat) \<times> string) option" where
  "parse_date s =
     Option.bind (parse_field 4 (CHR ''-'') s) (\<lambda>(y, s1).
     Option.bind (parse_field 2 (CHR ''-'') s1) (\<lambda>(mo, s2).
     Option.bind (parse_field 2 (CHR ''T'') s2) (\<lambda>(dd, s3).
     Some ((y, mo, dd), s3))))"

definition parse_time :: "string \<Rightarrow> (nat \<times> nat \<times> nat \<times> nat) option" where
  "parse_time s =
     Option.bind (parse_field 2 (CHR '':'') s) (\<lambda>(hh, s1).
     Option.bind (parse_field 2 (CHR '':'') s1) (\<lambda>(mi, s2).
     Option.bind (take_digits 2 0 s2) (\<lambda>(ss, s3).
     Option.bind (parse_fraction s3) (\<lambda>us.
     Some (hh, mi, ss, us)))))"

definition parse_iso8601 :: "string \<Rightarrow> datetime option" where
  "parse_iso8601 s =
     Option.bind (parse_date s) (\<lambda>((y, mo, dd), s1).
     Option.bind (parse_time s1) (\<lambda>(hh, mi, ss, us).
     (let d = \<lparr>year = y, month = mo, day = dd, hour = hh, minute = mi,
                second = ss, microsecond = us\<rparr>
      in if valid_datetime d then Some d else None)))"

subsection \<open>The handlers\<close>

definition root :: "datetime \<Rightarrow> json" where
  "root now = JObj
     [(''message'', JStr ''Welcome to AMS - Agent Management System''),
      (''version'', JStr ''1.0.0''),
      (''description'', JStr ''B2B SaaS platform for enterprise AI agent fleet management''),
      (''status'', JStr ''operational''),
      (''timestamp'', JStr (isoformat now)),
      (''endpoints'', JObj
         [(''docs'', JStr ''/api/docs''),
          (''health'', JStr ''/health''),
          (''api'', JStr ''/api/v1'')])]"

definition health_check :: "datetime \<Rightarrow> json" where
  "health_check now = JObj
     [(''status'', JStr ''healthy''),
      (''timestamp'', JStr (isoformat now)),
      (''service'', JStr ''ams-backend''),
      (''version'', JStr ''1.0.0'')]"

definition api_status :: "datetime \<Rightarrow> json" where
  "api_status now = JObj
     [(''api_version'', JStr ''v1''),
      (''status'', JStr ''operational''),
      (''features'', JObj
         [(''agent_management'', JStr ''coming_soon''),
          (''observability'', JStr ''coming_soon''),
          (''governance'', JStr ''coming_soon''),
          (''analytics'', JStr ''coming_soon'')]),
      (''timestamp'', JStr (isoformat now))]"

text \<open>The two placeholder handlers do not read the clock.\<close>

definition list_agents :: json where
  "list_agents = JObj
     [(''agents'', JList []),
      (''total'', JInt 0),
      (''message'', JStr ''Agent management coming soon - Task 2 in progress'')]"

definition get_metrics :: json where
  "get_metrics = JObj
     [(''metrics'', JObj
         [(''active_agents'', JInt 0),
          (''total_tasks'', JInt 0),
          (''success_rate'', JFloat 0),
          (''cost_savings'', JFloat 0)]),
      (''message'', JStr ''Metrics dashboard coming soon - Task 8 in progress'')]"

subsection \<open>Requests and responses\<close>

text \<open>
  A request as the ASGI scope gives it to the application: the method, the decoded path,
  and the headers with lower-case names. A response is its status code and its content;
  the pages that the framework generates itself are opaque constructors.
\<close>

record request =
  "method" :: string
  path :: string
  headers :: "(string \<times> string) list"

datatype content =
    Json json
  | PlainText string
  | Location string
  | OpenAPISchema
  | SwaggerUI
  | SwaggerUIRedirect
  | ReDoc

record response =
  status_code :: nat
  body :: content

definition is_2xx :: "response \<Rightarrow> bool" where
  "is_2xx r = (200 \<le> status_code r \<and> status_code r < 300)"

subsection \<open>The route table\<close>

record route =
  route_path :: string
  route_methods :: "string list"
  endpoint :: "datetime \<Rightarrow> content"

text \<open>
  \<open>FastAPI(docs_url="/api/docs", redoc_url="/api/redoc", ...)\<close>: the constructor's
  \<open>setup()\<close> registers the schema and documentation pages first. The schema path and
  the OAuth2 redirect path are the constructor's defaults, which the module leaves as
  they are. These are plain Starlette routes: GET, to which HEAD is added.
\<close>

definition FastAPI_setup :: "route list" where
  "FastAPI_setup =
     [\<lparr>route_path = ''/openapi.json'', route_methods = [''GET'', ''HEAD''],
        endpoint = (\<lambda>now. OpenAPISchema)\<rparr>,
      \<lparr>route_path = ''/api/docs'', route_methods = [''GET'', ''HEAD''],
        endpoint = (\<lambda>now. SwaggerUI)\<rparr>,
      \<lparr>route_path = ''/docs/oauth2-redirect'', route_methods = [''GET'', ''HEAD''],
        endpoint = (\<lambda>now. SwaggerUIRedirect)\<rparr>,
      \<lparr>route_path = ''/api/redoc'', route_methods = [''GET'', ''HEAD''],
        endpoint = (\<lambda>now. ReDoc)\<rparr>]"

text \<open>
  The five \<open>@app.get(...)\<close> decorators, in the order of the module. An API route
  accepts exactly the methods of its decorator.
\<close>

definition api_routes :: "route list" where
  "api_routes =
     [\<lparr>route_path = ''/'', route_methods = [''GET''],
        endpoint = (\<lambda>now. Json (root now))\<rparr>,
      \<lparr>route_path = ''/health'', route_methods = [''GET''],
        endpoint = (\<lambda>now. Json (health_check now))\<rparr>,
      \<lparr>route_path = ''/api/v1/status'', route_methods = [''GET''],
        endpoint = (\<lambda>now. Json (api_status now))\<rparr>,
      \<lparr>route_path = ''/api/v1/agents'', route_methods = [''GET''],
        endpoint = (\<lambda>now. Json list_agents)\<rparr>,
      \<lparr>route_path = ''/api/v1/metrics'', route_methods = [''GET''],
        endpoint = (\<lambda>now. Json get_metrics)\<rparr>]"

definition routes :: "route list" where
  "routes = FastAPI_setup @ api_routes"

subsection \<open>Dispatch\<close>

text \<open>
  A path without parameters compiles to the regular expression \<open>^path$\<close>, tried with
  \<open>match\<close>; Python's \<open>$\<close> also matches just before a newline that ends the string.
\<close>

definition path_regex_match :: "string \<Rightarrow> string \<Rightarrow> bool" where
  "path_regex_match rp p = (p = rp \<or> p = rp @ [CHR 0x0A])"

datatype match = MatchNone | MatchPartial | MatchFull

definition matches :: "route \<Rightarrow> request \<Rightarrow> match" where
  "matches rt req =
     (if path_regex_match (route_path rt) (path req)
      then (if route_methods rt \<noteq> [] \<and> method req \<notin> set (route_methods rt)
            then MatchPartial else MatchFull)
      else MatchNone)"

text \<open>
  An \<open>HTTPException\<close> raised by the router is turned into a JSON response by the
  framework's handler; its detail is the standard phrase of the status code.
\<close>

definition http_exception_handler :: "nat \<Rightarrow> string \<Rightarrow> response" where
  "http_exception_handler code detail =
     \<lparr>status_code = code, body = Json (JObj [(''detail'', JStr detail)])\<rparr>"

definition not_found :: response where
  "not_found = http_exception_handler 404 ''Not Found''"

text \<open>A handler's dictionary is sent as a JSON response with the default status 200.\<close>

definition handle :: "route \<Rightarrow> request \<Rightarrow> datetime \<Rightarrow> response" where
  "handle rt req now =
     (if route_methods rt \<noteq> [] \<and> method req \<notin> set (route_methods rt)
      then http_exception_handler 405 ''Method Not Allowed''
      else \<lparr>status_code = 200, body = endpoint rt now\<rparr>)"

definition rstrip_slash :: "string \<Rightarrow> string" where
  "rstrip_slash p = rev (dropWhile (\<lambda>c. c = CHR ''/'') (rev p))"

definition redirect_path :: "string \<Rightarrow> string" where
  "redirect_path p = (if p \<noteq> [] \<and> last p = CHR ''/'' then rstrip_slash p else p @ ''/'')"

text \<open>
  \<open>Router.app\<close>: the first route that matches in full handles the request; otherwise
  the first route that matches the path only (it answers 405); otherwise, if the path
  with its trailing slash added or removed matches a route, a redirect (307); otherwise
  404. The redirect's target is kept as the path alone.
\<close>

definition Router_app :: "request \<Rightarrow> datetime \<Rightarrow> response" where
  "Router_app req now =
     (case find (\<lambda>rt. matches rt req = MatchFull) routes of
        Some rt \<Rightarrow> handle rt req now
      | None \<Rightarrow>
         (case find (\<lambda>rt. matches rt req = MatchPartial) routes of
            Some rt \<Rightarrow> handle rt req now
          | None \<Rightarrow>
             (if path req \<noteq> ''/''
                 \<and> list_ex (\<lambda>rt. matches rt (req\<lparr>path := redirect_path (path req)\<rparr>) \<noteq> MatchNone)
                      routes
              then \<lparr>status_code = 307, body = Location (redirect_path (path req))\<rparr>
              else not_found)))"

subsection \<open>The CORS middleware\<close>

text \<open>
  \<open>add_middleware(CORSMiddleware, allow_origins=["*"], allow_credentials=True,
  allow_methods=["*"], allow_headers=["*"])\<close>. With \<open>"*"\<close> among the methods the
  middleware allows \<open>ALL_METHODS\<close>; with \<open>"*"\<close> among the origins and the headers,
  no origin and no requested header is refused, so the method is the only check left in
  \<open>preflight_response\<close>. Response headers are not modelled.
\<close>

definition ALL_METHODS :: "string list" where
  "ALL_METHODS = [''DELETE'', ''GET'', ''HEAD'', ''OPTIONS'', ''PATCH'', ''POST'', ''PUT'']"

definition preflight_response :: "string \<Rightarrow> response" where
  "preflight_response requested_method =
     (if requested_method \<notin> set ALL_METHODS
      then \<lparr>status_code = 400, body = PlainText ''Disallowed CORS method''\<rparr>
      else \<lparr>status_code = 200, body = PlainText ''OK''\<rparr>)"

definition is_preflight :: "request \<Rightarrow> bool" where
  "is_preflight req =
     (map_of (headers req) ''origin'' \<noteq> None \<and> method req = ''OPTIONS''
      \<and> map_of (headers req) ''access-control-request-method'' \<noteq> None)"

text \<open>
  \<open>CORSMiddleware.__call__\<close>: without an Origin header the request goes to the
  application; a preflight is answered by the middleware itself; any other request goes
  to the application and only gets headers added.
\<close>

definition CORSMiddleware_call :: "request \<Rightarrow> response \<Rightarrow> response" where
  "CORSMiddleware_call req inner =
     (case map_of (headers req) ''origin'' of
        None \<Rightarrow> inner
      | Some origin \<Rightarrow>
         (case map_of (headers req) ''access-control-request-method'' of
            None \<Rightarrow> inner
          | Some requested_method \<Rightarrow>
             if method req = ''OPTIONS'' then preflight_response requested_method
             else inner))"

text \<open>The application: the middleware around the router.\<close>

definition app :: "request \<Rightarrow> datetime \<Rightarrow> response" where
  "app req now = CORSMiddleware_call req (Router_app req now)"

subsection \<open>Startup\<close>

datatype py_error = ValueError

text \<open>
  A Python \<open>str\<close> is a sequence of code points; the values of the environment are
  such strings. \<open>pystr_of\<close> gives the \<open>str\<close> of a seven-bit text.
\<close>

type_synonym pystr = "nat list"

definition pystr_of :: "string \<Rightarrow> pystr" where
  "pystr_of s = map of_char s"

datatype pyval = PStr pystr | PInt int

definition getenv :: "(string \<rightharpoonup> pystr) \<Rightarrow> string \<Rightarrow> pyval \<Rightarrow> pyval" where
  "getenv environ k dflt = (case environ k of None \<Rightarrow> dflt | Some s \<Rightarrow> PStr s)"

text \<open>
  What \<open>int\<close> takes from the interpreter that runs the script: the limit on the
  number of digits of a decimal numeral (\<open>sys.get_int_max_str_digits()\<close>: 4300 unless
  the interpreter is started with \<open>PYTHONINTMAXSTRDIGITS\<close> or
  \<open>-X int_max_str_digits\<close>; 0 switches the check off, and so behaves an interpreter
  that has no such limit), and the two tables of its Unicode database that say which
  code points are blanks and which are decimal digits.
\<close>

record interpreter =
  int_max_str_digits :: nat
  Py_UNICODE_ISSPACE :: "nat \<Rightarrow> bool"
  Py_UNICODE_TODECIMAL :: "nat \<Rightarrow> nat option"

text \<open>
  \<open>int(x)\<close> on a \<open>str\<close> first rewrites it to seven-bit text. A string of seven-bit
  code points is taken as it is. Otherwise code points below 127 are kept, a Unicode
  blank becomes a space and a Unicode decimal digit its ASCII digit; at any other code
  point the text ends with a question mark.
\<close>

fun transform_code_points :: "interpreter \<Rightarrow> pystr \<Rightarrow> string" where
  "transform_code_points I [] = []"
| "transform_code_points I (ch # u) =
     (if ch < 127 then char_of ch # transform_code_points I u
      else if Py_UNICODE_ISSPACE I ch then CHR '' '' # transform_code_points I u
      else (case Py_UNICODE_TODECIMAL I ch of
              None \<Rightarrow> ''?''
            | Some d \<Rightarrow> char_of (48 + d) # transform_code_points I u))"

definition TransformDecimalAndSpaceToASCII :: "interpreter \<Rightarrow> pystr \<Rightarrow> string" where
  "TransformDecimalAndSpaceToASCII I u =
     (if list_all (\<lambda>ch. ch < 128) u then map char_of u else transform_code_points I u)"

text \<open>
  The seven-bit text is then read in base 10: blanks around it are dropped, a sign may
  come first, then digits, where one underscore may stand between two digits. The
  result is the number of digits and the value; any other text is not a numeral.
\<close>

definition Py_ISSPACE :: "char \<Rightarrow> bool" where
  "Py_ISSPACE c = ((of_char c :: nat) \<in> {9, 10, 11, 12, 13, 32})"

definition is_digit :: "char \<Rightarrow> bool" where
  "is_digit c = (digit_val c \<noteq> None)"

fun int_digits :: "nat \<Rightarrow> string \<Rightarrow> nat option" where
  "int_digits acc [] = Some acc"
| "int_digits acc (c # cs) =
     (case digit_val c of
        Some d \<Rightarrow> int_digits (acc * 10 + d) cs
      | None \<Rightarrow>
         (if c = CHR ''_'' \<and> cs \<noteq> [] \<and> is_digit (hd cs) then int_digits acc cs else None))"

definition int_magnitude :: "string \<Rightarrow> nat option" where
  "int_magnitude s = (if s \<noteq> [] \<and> is_digit (hd s) then int_digits 0 s else None)"

definition strip :: "string \<Rightarrow> string" where
  "strip s = rev (dropWhile Py_ISSPACE (rev (dropWhile Py_ISSPACE s)))"

definition count_digits :: "string \<Rightarrow> nat" where
  "count_digits s = length (filter is_digit s)"

definition int_literal :: "string \<Rightarrow> (nat \<times> int) option" where
  "int_literal s =
     (let t = strip s;
          (neg, u) = (case t of
                        c # cs \<Rightarrow> if c = CHR ''-'' then (True, cs)
                                  else if c = CHR ''+'' then (False, cs) else (False, t)
                      | [] \<Rightarrow> (False, t))
      in case int_magnitude u of
           None \<Rightarrow> None
         | Some n \<Rightarrow> Some (count_digits u, if neg then - int n else int n))"

text \<open>
  A numeral of more than 640 digits is refused when the interpreter has a limit and the
  numeral has more digits than the limit. Both failures are a \<open>ValueError\<close>.
\<close>

definition exceeds_max_str_digits :: "interpreter \<Rightarrow> nat \<Rightarrow> bool" where
  "exceeds_max_str_digits I k =
     (640 < k \<and> 0 < int_max_str_digits I \<and> int_max_str_digits I < k)"

definition int_of_str :: "interpreter \<Rightarrow> pystr \<Rightarrow> py_error + int" where
  "int_of_str I u =
     (case int_literal (TransformDecimalAndSpaceToASCII I u) of
        None \<Rightarrow> Inl ValueError
      | Some (k, v) \<Rightarrow> if exceeds_max_str_digits I k then Inl ValueError else Inr v)"

text \<open>\<open>int(x)\<close>: an int is returned as it is, a \<open>str\<close> is read.\<close>

fun py_int :: "interpreter \<Rightarrow> pyval \<Rightarrow> py_error + int" where
  "py_int I (PInt n) = Inr n"
| "py_int I (PStr s) = int_of_str I s"

text \<open>
  \<open>uvicorn.run("main:app", host="0.0.0.0", port=port, reload=True)\<close>: the server
  listens as configured and answers the requests that arrive, each with the clock
  reading of its handling.
\<close>

record config =
  app_import :: string
  host :: string
  port :: int
  reload :: bool

record server_run =
  listening :: config
  served :: "response list"

definition uvicorn_run :: "config \<Rightarrow> (request \<times> datetime) list \<Rightarrow> server_run" where
  "uvicorn_run cfg reqs =
     \<lparr>listening = cfg, served = map (\<lambda>(req, now). app req now) reqs\<rparr>"

text \<open>The body of \<open>if __name__ == "__main__"\<close>, run by the interpreter \<open>I\<close>.\<close>

definition main ::
  "interpreter \<Rightarrow> (string \<rightharpoonup> pystr) \<Rightarrow> (request \<times> datetime) list \<Rightarrow> py_error + server_run"
where
  "main I environ reqs =
     (case py_int I (getenv environ ''PORT'' (PInt 8000)) of
        Inl e \<Rightarrow> Inl e
      | Inr p \<Rightarrow>
          Inr (uvicorn_run \<lparr>app_import = ''main:app'', host = ''0.0.0.0'', port = p,
                            reload = True\<rparr> reqs))"

subsection \<open>An interpreter for the examples\<close>

text \<open>
  CPython 3.11 as it starts by default: the limit of 4300 digits and the tables of
  Unicode 14.0. The decimal digits come in blocks of consecutive code points, each
  block counting 0 to 9 from its start (once five times over).
\<close>

definition unicode_blanks :: "nat list" where
  "unicode_blanks =
     [9, 10, 11, 12, 13, 28, 29, 30, 31, 32, 133, 160, 5760, 8192, 8193, 8194, 8195,
      8196, 8197, 8198, 8199, 8200, 8201, 8202, 8232, 8233, 8239, 8287, 12288]"

definition unicode_digit_blocks :: "(nat \<times> nat) list" where
  "unicode_digit_blocks =
     [(48, 57), (1632, 1641), (1776, 1785), (1984, 1993), (2406, 2415), (2534, 2543),
      (2662, 2671), (2790, 2799), (2918, 2927), (3046, 3055), (3174, 3183),
      (3302, 3311), (3430, 3439), (3558, 3567), (3664, 3673), (3792, 3801),
      (3872, 3881), (4160, 4169), (4240, 4249), (6112, 6121), (6160, 6169),
      (6470, 6479), (6608, 6617), (6784, 6793), (6800, 6809), (6992, 7001),
      (7088, 7097), (7232, 7241), (7248, 7257), (42528, 42537), (43216, 43225),
      (43264, 43273), (43472, 43481), (43504, 43513), (43600, 43609), (44016, 44025),
      (65296, 65305), (66720, 66729), (68912, 68921), (69734, 69743), (69872, 69881),
      (69942, 69951), (70096, 70105), (70384, 70393), (70736, 70745), (70864, 70873),
      (71248, 71257), (71360, 71369), (71472, 71481), (71904, 71913), (72016, 72025),
      (72784, 72793), (73040, 73049), (73120, 73129), (92768, 92777), (92864, 92873),
      (93008, 93017), (120782, 120831), (123200, 123209), (123632, 123641),
      (125264, 125273), (130032, 130041)]"

definition cpython_3_11 :: interpreter where
  "cpython_3_11 =
     \<lparr>int_max_str_digits = 4300,
      Py_UNICODE_ISSPACE = (\<lambda>ch. ch \<in> set unicode_blanks),
      Py_UNICODE_TODECIMAL =
        (\<lambda>ch. case find (\<lambda>(lo, hi). lo \<le> ch \<and> ch \<le> hi) unicode_digit_blocks of
                 None \<Rightarrow> None
               | Some (lo, hi) \<Rightarrow> Some ((ch - lo) mod 10))\<rparr>"

subsection \<open>The interface table of the specification\<close>

text \<open>
  The specification's table of external interfaces, row by row: for each path, the
  fields it enumerates for the response (the welcome message is the field
  \<open>message\<close>, the endpoint map the field \<open>endpoints\<close>). This definition follows
  the specification, not the module; the theorems compare the two.
\<close>

definition spec_interface_table :: "(string \<times> string list) list" where
  "spec_interface_table =
     [(''/'', [''message'', ''version'', ''status'', ''timestamp'', ''endpoints'']),
      (''/health'', [''status'', ''timestamp'', ''service'', ''version'']),
      (''/api/v1/status'', [''api_version'', ''status'', ''features'', ''timestamp'']),
      (''/api/v1/agents'', [''agents'', ''total'', ''message'']),
      (''/api/v1/metrics'', [''metrics'', ''message''])]"

section \<open>Reading back what isoformat prints\<close>

lemma digit_val_digit_char: "d < 10 \<Longrightarrow> digit_val (digit_char d) = Some d"
  by (simp add: digit_val_def digit_char_def)

lemma take_digits_append:
  "take_digits w acc s = Some (a, []) \<Longrightarrow> take_digits (w + k) acc (s @ t) = take_digits k a t"
proof (induction w acc s rule: take_digits.induct)
  case (1 acc s)
  then show ?case by simp
next
  case (2 w acc)
  then show ?case by simp
next
  case (3 w acc c s)
  then show ?case by (cases "digit_val c") simp_all
qed

lemma take_digits_show_nat:
  "take_digits (length (show_nat n)) acc (show_nat n)
     = Some (acc * 10 ^ length (show_nat n) + n, [])"
proof (induction n arbitrary: acc rule: show_nat.induct)
  case (1 n)
  show ?case
  proof (cases "n < 10")
    case True
    then show ?thesis
      by (simp add: show_nat.simps [of n] digit_val_digit_char)
  next
    case False
    let ?m = "n div 10"
    have sn: "show_nat n = show_nat ?m @ [digit_char (n mod 10)]"
      using False by (simp add: show_nat.simps [of n])
    have ih: "take_digits (length (show_nat ?m)) acc (show_nat ?m)
                = Some (acc * 10 ^ length (show_nat ?m) + ?m, [])"
      using "1.IH" [OF False] .
    have "take_digits (length (show_nat ?m) + 1) acc (show_nat ?m @ [digit_char (n mod 10)])
            = take_digits 1 (acc * 10 ^ length (show_nat ?m) + ?m) [digit_char (n mod 10)]"
      using take_digits_append [OF ih] .
    also have "\<dots> = Some ((acc * 10 ^ length (show_nat ?m) + ?m) * 10 + n mod 10, [])"
      by (simp add: digit_val_digit_char)
    also have "(acc * 10 ^ length (show_nat ?m) + ?m) * 10 + n mod 10
                 = acc * 10 ^ (length (show_nat ?m) + 1) + n"
      by (simp add: algebra_simps)
    finally show ?thesis by (simp add: sn)
  qed
qed

lemma take_digits_zeros:
  "take_digits (k + m) acc (replicate k (CHR ''0'') @ s) = take_digits m (acc * 10 ^ k) s"
proof (induction k arbitrary: acc)
  case 0
  then show ?case by simp
next
  case (Suc k)
  have "digit_val (CHR ''0'') = Some 0" by (simp add: digit_val_def)
  then show ?case using Suc [of "acc * 10"] by (simp add: algebra_simps)
qed

lemma length_show_nat: "0 < w \<Longrightarrow> n < 10 ^ w \<Longrightarrow> length (show_nat n) \<le> w"
proof (induction n arbitrary: w rule: show_nat.induct)
  case (1 n)
  show ?case
  proof (cases "n < 10")
    case True
    then show ?thesis using "1.prems" by (simp add: show_nat.simps [of n])
  next
    case False
    obtain v where w: "w = Suc v" using "1.prems"(1) by (cases w) auto
    have "0 < v" using False "1.prems"(2) w by (cases v) auto
    moreover have "n div 10 < 10 ^ v" using "1.prems"(2) w by (simp add: less_mult_imp_div_less)
    ultimately have "length (show_nat (n div 10)) \<le> v" using "1.IH" [OF False] by blast
    then show ?thesis using False w by (simp add: show_nat.simps [of n])
  qed
qed

lemma take_digits_format_d:
  assumes "0 < w" "n < 10 ^ w"
  shows "take_digits w 0 (format_d w n @ rest) = Some (n, rest)"
proof -
  let ?l = "length (show_nat n)"
  have le: "?l \<le> w" using assms by (rule length_show_nat)
  have "take_digits (?l + 0) 0 (show_nat n @ rest) = take_digits 0 n rest"
    using take_digits_append [OF take_digits_show_nat [of n 0], of 0 rest] by simp
  then have a: "take_digits ?l 0 (show_nat n @ rest) = Some (n, rest)" by simp
  have "take_digits ((w - ?l) + ?l) 0 (replicate (w - ?l) (CHR ''0'') @ (show_nat n @ rest))
          = take_digits ?l (0 * 10 ^ (w - ?l)) (show_nat n @ rest)"
    by (rule take_digits_zeros)
  then show ?thesis using le a by (simp add: format_d_def)
qed

lemma parse_field_format_d:
  "0 < w \<Longrightarrow> n < 10 ^ w \<Longrightarrow> parse_field w c (format_d w n @ c # rest) = Some (n, rest)"
  by (simp add: parse_field_def take_digits_format_d)

lemma parse_fraction_format:
  assumes "us < 1000000"
  shows "parse_fraction (if us = 0 then [] else ''.'' @ format_d 6 us) = Some us"
proof (cases "us = 0")
  case True
  then show ?thesis by (simp add: parse_fraction_def)
next
  case False
  have "take_digits 6 0 (format_d 6 us @ []) = Some (us, [])"
    using assms by (intro take_digits_format_d) simp_all
  then show ?thesis using False by (simp add: parse_fraction_def)
qed

lemma parse_iso8601_isoformat:
  assumes "valid_datetime d"
  shows "parse_iso8601 (isoformat d) = Some d"
proof -
  let ?frac = "if microsecond d = 0 then [] else ''.'' @ format_d 6 (microsecond d)"
  let ?time = "format_d 2 (hour d) @ CHR '':'' # format_d 2 (minute d) @ CHR '':'' #
                 format_d 2 (second d) @ ?frac"
  have b: "year d < 10 ^ 4" "month d < 10 ^ 2" "day d < 10 ^ 2" "hour d < 10 ^ 2"
    "minute d < 10 ^ 2" "second d < 10 ^ 2" "microsecond d < 1000000"
    using assms by (auto simp: valid_datetime_def days_in_month_def split: if_splits)
  have iso: "isoformat d = format_d 4 (year d) @ CHR ''-'' # format_d 2 (month d) @ CHR ''-'' #
               format_d 2 (day d) @ CHR ''T'' # ?time"
    by (simp add: isoformat_def)
  have date: "parse_date (isoformat d) = Some ((year d, month d, day d), ?time)"
    unfolding iso parse_date_def using b by (simp add: parse_field_format_d)
  have time: "parse_time ?time = Some (hour d, minute d, second d, microsecond d)"
    unfolding parse_time_def using b
    by (simp only: parse_field_format_d take_digits_format_d parse_fraction_format
          Option.bind.simps prod.case zero_less_numeral)
  have rec: "\<lparr>year = year d, month = month d, day = day d, hour = hour d,
               minute = minute d, second = second d, microsecond = microsecond d\<rparr> = d"
    by (cases d) simp
  show ?thesis
    unfolding parse_iso8601_def date using time assms by (simp add: rec)
qed


section \<open>Routing a request\<close>

lemma app_not_OPTIONS: "method req \<noteq> ''OPTIONS'' \<Longrightarrow> app req now = Router_app req now"
  by (simp add: app_def CORSMiddleware_call_def split: option.splits)

lemma app_not_preflight: "\<not> is_preflight req \<Longrightarrow> app req now = Router_app req now"
  by (auto simp: app_def CORSMiddleware_call_def is_preflight_def split: option.splits)

lemmas Router_app_unfold =
  Router_app_def routes_def FastAPI_setup_def api_routes_def matches_def
  path_regex_match_def handle_def

lemma Router_app_root:
  "method req = ''GET'' \<Longrightarrow> path req = ''/'' \<Longrightarrow>
   Router_app req now = \<lparr>status_code = 200, body = Json (root now)\<rparr>"
  by (simp add: Router_app_unfold)

lemma Router_app_health:
  "method req = ''GET'' \<Longrightarrow> path req = ''/health'' \<Longrightarrow>
   Router_app req now = \<lparr>status_code = 200, body = Json (health_check now)\<rparr>"
  by (simp add: Router_app_unfold)

lemma Router_app_status:
  "method req = ''GET'' \<Longrightarrow> path req = ''/api/v1/status'' \<Longrightarrow>
   Router_app req now = \<lparr>status_code = 200, body = Json (api_status now)\<rparr>"
  by (simp add: Router_app_unfold)

lemma Router_app_agents:
  "method req = ''GET'' \<Longrightarrow> path req = ''/api/v1/agents'' \<Longrightarrow>
   Router_app req now = \<lparr>status_code = 200, body = Json list_agents\<rparr>"
  by (simp add: Router_app_unfold)

lemma Router_app_metrics:
  "method req = ''GET'' \<Longrightarrow> path req = ''/api/v1/metrics'' \<Longrightarrow>
   Router_app req now = \<lparr>status_code = 200, body = Json get_metrics\<rparr>"
  by (simp add: Router_app_unfold)

lemma api_routes_cases:
  assumes "rt \<in> set api_routes"
  shows "(route_path rt = ''/'' \<and> endpoint rt = (\<lambda>now. Json (root now)))
       \<or> (route_path rt = ''/health'' \<and> endpoint rt = (\<lambda>now. Json (health_check now)))
       \<or> (route_path rt = ''/api/v1/status'' \<and> endpoint rt = (\<lambda>now. Json (api_status now)))
       \<or> (route_path rt = ''/api/v1/agents'' \<and> endpoint rt = (\<lambda>now. Json list_agents))
       \<or> (route_path rt = ''/api/v1/metrics'' \<and> endpoint rt = (\<lambda>now. Json get_metrics))"
proof -
  from assms have "rt = api_routes ! 0 \<or> rt = api_routes ! 1 \<or> rt = api_routes ! 2
      \<or> rt = api_routes ! 3 \<or> rt = api_routes ! 4"
    unfolding api_routes_def by simp
  then show ?thesis
    unfolding api_routes_def by (elim disjE) simp_all
qed

lemma app_GET:
  assumes "method req = ''GET''" "rt \<in> set api_routes" "path req = route_path rt"
  shows "app req now = \<lparr>status_code = 200, body = endpoint rt now\<rparr>"
proof -
  have m: "method req \<noteq> ''OPTIONS''" using assms(1) by simp
  show ?thesis
    using api_routes_cases [OF assms(2)] assms(1,3)
    by (elim disjE conjE)
       (simp_all add: app_not_OPTIONS [OF m] Router_app_root Router_app_health
          Router_app_status Router_app_agents Router_app_metrics)
qed

lemma Router_app_no_match:
  assumes "\<forall>rt\<in>set routes. matches rt req = MatchNone"
  shows "Router_app req now =
           (if list_ex (\<lambda>rt. matches rt (req\<lparr>path := redirect_path (path req)\<rparr>) \<noteq> MatchNone) routes
            then \<lparr>status_code = 307, body = Location (redirect_path (path req))\<rparr>
            else not_found)"
proof -
  have f: "find (\<lambda>rt. matches rt req = MatchFull) routes = None"
    "find (\<lambda>rt. matches rt req = MatchPartial) routes = None"
    using assms by (simp_all add: find_None_iff)
  have "\<lparr>route_path = ''/'', route_methods = [''GET''],
          endpoint = (\<lambda>now. Json (root now))\<rparr> \<in> set routes"
    by (simp add: routes_def api_routes_def)
  with assms have "matches \<lparr>route_path = ''/'', route_methods = [''GET''],
          endpoint = (\<lambda>now. Json (root now))\<rparr> req = MatchNone" by blast
  then have "path req \<noteq> ''/''"
    by (auto simp: matches_def path_regex_match_def split: if_splits)
  then show ?thesis by (simp add: Router_app_def f)
qed

lemma handle_full:
  "matches rt req = MatchFull \<Longrightarrow> handle rt req now = \<lparr>status_code = 200, body = endpoint rt now\<rparr>"
  by (auto simp: matches_def handle_def split: if_splits)

section \<open>The claims\<close>

subsection \<open>A clock reading used in the examples\<close>

lemma iso_sample: "isoformat \<lparr>year = 2024, month = 2, day = 29, hour = 13, minute = 5, second = 9,
               microsecond = 1234\<rparr> = ''2024-02-29T13:05:09.001234''"
  by code_simp

lemma valid_sample: "valid_datetime \<lparr>year = 2024, month = 2, day = 29, hour = 13, minute = 5, second = 9,
               microsecond = 1234\<rparr>"
  by (simp add: valid_datetime_def days_in_month_def is_leap_def)

subsection \<open>Timestamps\<close>

text \<open>
  C1, as stated, asks for a timestamp field in the payload of every handler, and names
  \<open>list_agents\<close> and \<open>get_metrics\<close>. Their dictionaries have no such key.
\<close>

theorem timestamp_counterexample:
  "obj_get list_agents ''timestamp'' = None \<and> obj_get get_metrics ''timestamp'' = None"
  by (simp add: list_agents_def get_metrics_def)

text \<open>
  C1, amended: the payloads of \<open>root\<close>, \<open>health_check\<close> and \<open>api_status\<close> have
  a timestamp field; its value is the ISO-8601 text of the clock reading, and reading
  it back gives that clock reading. The payloads of \<open>list_agents\<close> and
  \<open>get_metrics\<close> have no timestamp field.
\<close>

theorem timestamp_of_clock_handlers:
  assumes "valid_datetime now"
  shows "obj_get (root now) ''timestamp'' = Some (JStr (isoformat now))
       \<and> obj_get (health_check now) ''timestamp'' = Some (JStr (isoformat now))
       \<and> obj_get (api_status now) ''timestamp'' = Some (JStr (isoformat now))
       \<and> parse_iso8601 (isoformat now) = Some now
       \<and> obj_get list_agents ''timestamp'' = None
       \<and> obj_get get_metrics ''timestamp'' = None"
  using parse_iso8601_isoformat [OF assms]
  by (simp add: root_def health_check_def api_status_def list_agents_def get_metrics_def)

theorem timestamp_of_clock_handlers_witness:
  "valid_datetime \<lparr>year = 2024, month = 2, day = 29, hour = 13, minute = 5, second = 9,
                   microsecond = 1234\<rparr>
   \<and> obj_get (health_check \<lparr>year = 2024, month = 2, day = 29, hour = 13, minute = 5,
                 second = 9, microsecond = 1234\<rparr>) ''timestamp''
       = Some (JStr ''2024-02-29T13:05:09.001234'')
   \<and> parse_iso8601 ''2024-02-29T13:05:09.001234''
       = Some \<lparr>year = 2024, month = 2, day = 29, hour = 13, minute = 5, second = 9,
               microsecond = 1234\<rparr>"
  using timestamp_of_clock_handlers [OF valid_sample] valid_sample
  by (simp add: iso_sample)

subsection \<open>The handler routes\<close>

text \<open>
  C2, as stated, counts six paths, each with a handler that adds a timestamp. The module
  registers five handlers (the table with the framework's own pages has nine routes),
  and the handler of \<open>/api/v1/agents\<close> returns no timestamp.
\<close>

theorem six_routes_counterexample:
  "length api_routes \<noteq> 6 \<and> length routes \<noteq> 6
   \<and> route_path (api_routes ! 3) = ''/api/v1/agents''
   \<and> endpoint (api_routes ! 3)
         \<lparr>year = 2024, month = 2, day = 29, hour = 13, minute = 5, second = 9,
           microsecond = 1234\<rparr>
       = Json list_agents
   \<and> obj_get list_agents ''timestamp'' = None"
  by (simp add: api_routes_def routes_def FastAPI_setup_def list_agents_def)

text \<open>
  C2, amended: the module registers exactly five handler paths, all different, each
  with its own handler returning a literal dictionary. Three handlers (\<open>/\<close>,
  \<open>/health\<close>, \<open>/api/v1/status\<close>) add the current timestamp and depend on the
  clock in that field only; the handlers of \<open>/api/v1/agents\<close> and
  \<open>/api/v1/metrics\<close> return the literal alone.
\<close>

theorem five_handler_routes:
  "map route_path api_routes
     = [''/'', ''/health'', ''/api/v1/status'', ''/api/v1/agents'', ''/api/v1/metrics'']
   \<and> distinct (map route_path api_routes)
   \<and> map (\<lambda>rt. endpoint rt now) api_routes
       = [Json (root now), Json (health_check now), Json (api_status now),
          Json list_agents, Json get_metrics]
   \<and> distinct (map (\<lambda>rt. endpoint rt now) api_routes)
   \<and> obj_get (root now) ''timestamp'' = Some (JStr (isoformat now))
   \<and> obj_get (health_check now) ''timestamp'' = Some (JStr (isoformat now))
   \<and> obj_get (api_status now) ''timestamp'' = Some (JStr (isoformat now))
   \<and> obj_del ''timestamp'' (root now) = obj_del ''timestamp'' (root now')
   \<and> obj_del ''timestamp'' (health_check now) = obj_del ''timestamp'' (health_check now')
   \<and> obj_del ''timestamp'' (api_status now) = obj_del ''timestamp'' (api_status now')
   \<and> obj_get list_agents ''timestamp'' = None
   \<and> obj_get get_metrics ''timestamp'' = None"
proof -
  have paths: "map route_path api_routes
     = [''/'', ''/health'', ''/api/v1/status'', ''/api/v1/agents'', ''/api/v1/metrics'']"
    by (simp add: api_routes_def)
  have dist: "distinct (map route_path api_routes)"
    unfolding paths by simp
  have eps: "map (\<lambda>rt. endpoint rt now) api_routes
       = [Json (root now), Json (health_check now), Json (api_status now),
          Json list_agents, Json get_metrics]"
    by (simp add: api_routes_def)
  have own: "distinct (map (\<lambda>rt. endpoint rt now) api_routes)"
    unfolding eps
    by (simp add: root_def health_check_def api_status_def list_agents_def get_metrics_def)
  have ts: "obj_get (root now) ''timestamp'' = Some (JStr (isoformat now))"
    "obj_get (health_check now) ''timestamp'' = Some (JStr (isoformat now))"
    "obj_get (api_status now) ''timestamp'' = Some (JStr (isoformat now))"
    by (simp_all add: root_def health_check_def api_status_def)
  have lit: "obj_del ''timestamp'' (root now) = obj_del ''timestamp'' (root now')"
    "obj_del ''timestamp'' (health_check now) = obj_del ''timestamp'' (health_check now')"
    "obj_del ''timestamp'' (api_status now) = obj_del ''timestamp'' (api_status now')"
    by (simp_all add: root_def health_check_def api_status_def)
  have none: "obj_get list_agents ''timestamp'' = None" "obj_get get_metrics ''timestamp'' = None"
    by (simp_all add: list_agents_def get_metrics_def)
  show ?thesis
    using paths dist eps own ts lit none by (intro conjI)
qed

subsection \<open>The placeholder handlers\<close>

text \<open>
  C3: every GET of \<open>/api/v1/agents\<close>, whatever its headers and whenever it is
  handled, is answered with the payload of \<open>list_agents\<close>, whose \<open>agents\<close> field is
  the empty list and whose \<open>total\<close> field is 0.
\<close>

theorem agents_always_empty:
  assumes "method req = ''GET''" "path req = ''/api/v1/agents''"
  shows "app req now = \<lparr>status_code = 200, body = Json list_agents\<rparr>
       \<and> obj_get list_agents ''agents'' = Some (JList [])
       \<and> obj_get list_agents ''total'' = Some (JInt 0)"
proof -
  have "method req \<noteq> ''OPTIONS''" using assms(1) by simp
  then have "app req now = Router_app req now" by (rule app_not_OPTIONS)
  then have "app req now = \<lparr>status_code = 200, body = Json list_agents\<rparr>"
    using assms by (simp add: Router_app_agents)
  moreover have "obj_get list_agents ''agents'' = Some (JList [])"
    "obj_get list_agents ''total'' = Some (JInt 0)"
    by (simp_all add: list_agents_def)
  ultimately show ?thesis by simp
qed

theorem agents_always_empty_witness:
  "app \<lparr>method = ''GET'', path = ''/api/v1/agents'', headers = [(''origin'', ''http://localhost:3000'')]\<rparr>
       \<lparr>year = 2024, month = 2, day = 29, hour = 13, minute = 5, second = 9, microsecond = 1234\<rparr>
     = \<lparr>status_code = 200, body = Json list_agents\<rparr>
   \<and> obj_get list_agents ''agents'' = Some (JList [])
   \<and> obj_get list_agents ''total'' = Some (JInt 0)"
  using agents_always_empty [of "\<lparr>method = ''GET'', path = ''/api/v1/agents'',
          headers = [(''origin'', ''http://localhost:3000'')]\<rparr>"
        "\<lparr>year = 2024, month = 2, day = 29, hour = 13, minute = 5, second = 9,
          microsecond = 1234\<rparr>"]
  by simp

text \<open>
  C4: every GET of \<open>/api/v1/metrics\<close> is answered with the payload of
  \<open>get_metrics\<close>, whose \<open>metrics\<close> object has \<open>active_agents\<close> and
  \<open>total_tasks\<close> equal to the integer 0 and \<open>success_rate\<close> and
  \<open>cost_savings\<close> equal to the float 0.0.
\<close>

theorem metrics_always_zero:
  assumes "method req = ''GET''" "path req = ''/api/v1/metrics''"
  shows "app req now = \<lparr>status_code = 200, body = Json get_metrics\<rparr>
       \<and> (\<exists>m. obj_get get_metrics ''metrics'' = Some m
              \<and> obj_get m ''active_agents'' = Some (JInt 0)
              \<and> obj_get m ''total_tasks'' = Some (JInt 0)
              \<and> obj_get m ''success_rate'' = Some (JFloat 0)
              \<and> obj_get m ''cost_savings'' = Some (JFloat 0))"
proof -
  have "method req \<noteq> ''OPTIONS''" using assms(1) by simp
  then have "app req now = Router_app req now" by (rule app_not_OPTIONS)
  then have "app req now = \<lparr>status_code = 200, body = Json get_metrics\<rparr>"
    using assms by (simp add: Router_app_metrics)
  moreover have "\<exists>m. obj_get get_metrics ''metrics'' = Some m
              \<and> obj_get m ''active_agents'' = Some (JInt 0)
              \<and> obj_get m ''total_tasks'' = Some (JInt 0)
              \<and> obj_get m ''success_rate'' = Some (JFloat 0)
              \<and> obj_get m ''cost_savings'' = Some (JFloat 0)"
    by (simp add: get_metrics_def)
  ultimately show ?thesis by simp
qed

theorem metrics_always_zero_witness:
  "app \<lparr>method = ''GET'', path = ''/api/v1/metrics'', headers = []\<rparr>
       \<lparr>year = 2024, month = 2, day = 29, hour = 13, minute = 5, second = 9, microsecond = 1234\<rparr>
     = \<lparr>status_code = 200, body = Json get_metrics\<rparr>
   \<and> obj_get get_metrics ''metrics''
       = Some (JObj [(''active_agents'', JInt 0), (''total_tasks'', JInt 0),
                     (''success_rate'', JFloat 0), (''cost_savings'', JFloat 0)])"
  using metrics_always_zero [of "\<lparr>method = ''GET'', path = ''/api/v1/metrics'', headers = []\<rparr>"
        "\<lparr>year = 2024, month = 2, day = 29, hour = 13, minute = 5, second = 9,
          microsecond = 1234\<rparr>"]
  by (simp add: get_metrics_def)

text \<open>
  C9: the answers to two GETs of \<open>/api/v1/agents\<close>, or to two GETs of
  \<open>/api/v1/metrics\<close>, are equal, whatever the headers of the two requests and the
  clock readings at which they are handled.
\<close>

theorem placeholders_constant:
  assumes "method r1 = ''GET''" "method r2 = ''GET''"
    and "path r1 = path r2"
    and "path r1 = ''/api/v1/agents'' \<or> path r1 = ''/api/v1/metrics''"
  shows "app r1 now1 = app r2 now2"
proof -
  have o: "method r1 \<noteq> ''OPTIONS''" "method r2 \<noteq> ''OPTIONS''" using assms(1,2) by simp_all
  from assms(4) show ?thesis
  proof
    assume p: "path r1 = ''/api/v1/agents''"
    then have "path r2 = ''/api/v1/agents''" using assms(3) by simp
    then show ?thesis
      using p assms(1,2) by (simp add: app_not_OPTIONS [OF o(1)] app_not_OPTIONS [OF o(2)] Router_app_agents)
  next
    assume p: "path r1 = ''/api/v1/metrics''"
    then have "path r2 = ''/api/v1/metrics''" using assms(3) by simp
    then show ?thesis
      using p assms(1,2) by (simp add: app_not_OPTIONS [OF o(1)] app_not_OPTIONS [OF o(2)] Router_app_metrics)
  qed
qed

theorem placeholders_constant_witness:
  "app \<lparr>method = ''GET'', path = ''/api/v1/metrics'', headers = []\<rparr>
       \<lparr>year = 2024, month = 2, day = 29, hour = 13, minute = 5, second = 9, microsecond = 1234\<rparr>
   = app \<lparr>method = ''GET'', path = ''/api/v1/metrics'',
           headers = [(''origin'', ''http://localhost:3000''), (''cookie'', ''a=b'')]\<rparr>
       \<lparr>year = 1999, month = 12, day = 31, hour = 23, minute = 59, second = 59, microsecond = 0\<rparr>"
  by (rule placeholders_constant) simp_all

subsection \<open>The health check\<close>

text \<open>
  C8: every GET of \<open>/health\<close> is answered with the payload of \<open>health_check\<close>,
  and the \<open>status\<close> field of that payload is the literal \<open>healthy\<close> for every
  clock reading: nothing the handler could inspect changes it.
\<close>

theorem health_always_healthy:
  assumes "method req = ''GET''" "path req = ''/health''"
  shows "app req now = \<lparr>status_code = 200, body = Json (health_check now)\<rparr>
       \<and> obj_get (health_check now) ''status'' = Some (JStr ''healthy'')"
proof -
  have "method req \<noteq> ''OPTIONS''" using assms(1) by simp
  then have "app req now = Router_app req now" by (rule app_not_OPTIONS)
  then have "app req now = \<lparr>status_code = 200, body = Json (health_check now)\<rparr>"
    using assms by (simp add: Router_app_health)
  moreover have "obj_get (health_check now) ''status'' = Some (JStr ''healthy'')"
    by (simp add: health_check_def)
  ultimately show ?thesis by simp
qed

theorem health_always_healthy_witness:
  "\<exists>payload. app \<lparr>method = ''GET'', path = ''/health'', headers = []\<rparr>
       \<lparr>year = 2024, month = 2, day = 29, hour = 13, minute = 5, second = 9, microsecond = 1234\<rparr>
     = \<lparr>status_code = 200, body = Json payload\<rparr>
   \<and> obj_get payload ''status'' = Some (JStr ''healthy'')"
  using health_always_healthy [of "\<lparr>method = ''GET'', path = ''/health'', headers = []\<rparr>"
        "\<lparr>year = 2024, month = 2, day = 29, hour = 13, minute = 5, second = 9,
          microsecond = 1234\<rparr>"]
  by simp

subsection \<open>The fields of the responses\<close>

lemma table_lookup:
  "map_of spec_interface_table ''/'' = Some [''message'', ''version'', ''status'', ''timestamp'', ''endpoints'']"
  "map_of spec_interface_table ''/health'' = Some [''status'', ''timestamp'', ''service'', ''version'']"
  "map_of spec_interface_table ''/api/v1/status'' = Some [''api_version'', ''status'', ''features'', ''timestamp'']"
  "map_of spec_interface_table ''/api/v1/agents'' = Some [''agents'', ''total'', ''message'']"
  "map_of spec_interface_table ''/api/v1/metrics'' = Some [''metrics'', ''message'']"
  by (simp_all add: spec_interface_table_def)

lemma handler_keys:
  "obj_keys (root now) = [''message'', ''version'', ''description'', ''status'', ''timestamp'', ''endpoints'']"
  "obj_keys (health_check now) = [''status'', ''timestamp'', ''service'', ''version'']"
  "obj_keys (api_status now) = [''api_version'', ''status'', ''features'', ''timestamp'']"
  "obj_keys list_agents = [''agents'', ''total'', ''message'']"
  "obj_keys get_metrics = [''metrics'', ''message'']"
  by (simp_all add: root_def health_check_def api_status_def list_agents_def get_metrics_def)

text \<open>
  C5, as stated, gives every body exactly the fields of the interface table. The body
  of \<open>GET /\<close> also has the field \<open>description\<close>, which the table's row does not
  enumerate.
\<close>

theorem root_fields_counterexample:
  "app \<lparr>method = ''GET'', path = ''/'', headers = []\<rparr>
       \<lparr>year = 2024, month = 2, day = 29, hour = 13, minute = 5, second = 9, microsecond = 1234\<rparr>
     = \<lparr>status_code = 200,
        body = Json (root \<lparr>year = 2024, month = 2, day = 29, hour = 13, minute = 5,
                            second = 9, microsecond = 1234\<rparr>)\<rparr>
   \<and> map_of spec_interface_table ''/''
       = Some [''message'', ''version'', ''status'', ''timestamp'', ''endpoints'']
   \<and> obj_keys (root \<lparr>year = 2024, month = 2, day = 29, hour = 13, minute = 5, second = 9,
                       microsecond = 1234\<rparr>)
       = [''message'', ''version'', ''description'', ''status'', ''timestamp'', ''endpoints'']
   \<and> ''description'' \<notin> set [''message'', ''version'', ''status'', ''timestamp'', ''endpoints'']"
proof -
  have "app \<lparr>method = ''GET'', path = ''/'', headers = []\<rparr>
       \<lparr>year = 2024, month = 2, day = 29, hour = 13, minute = 5, second = 9, microsecond = 1234\<rparr>
     = \<lparr>status_code = 200,
        body = Json (root \<lparr>year = 2024, month = 2, day = 29, hour = 13, minute = 5,
                            second = 9, microsecond = 1234\<rparr>)\<rparr>"
    by (simp add: app_not_OPTIONS Router_app_root)
  moreover have "map_of spec_interface_table ''/''
       = Some [''message'', ''version'', ''status'', ''timestamp'', ''endpoints'']"
    by (simp add: spec_interface_table_def)
  moreover have "obj_keys (root \<lparr>year = 2024, month = 2, day = 29, hour = 13, minute = 5,
       second = 9, microsecond = 1234\<rparr>)
       = [''message'', ''version'', ''description'', ''status'', ''timestamp'', ''endpoints'']"
    by (simp add: root_def)
  moreover have "''description'' \<notin> set [''message'', ''version'', ''status'', ''timestamp'', ''endpoints'']"
    by simp
  ultimately show ?thesis by (intro conjI)
qed

text \<open>
  C5, amended: a GET of any of the five handler paths is answered with status 200 and a
  JSON body that contains every field the interface table enumerates for the path. For
  \<open>/health\<close>, \<open>/api/v1/status\<close>, \<open>/api/v1/agents\<close> and \<open>/api/v1/metrics\<close>
  the body's fields are exactly the enumerated ones; the body of \<open>/\<close> has the
  enumerated fields and \<open>description\<close>.
\<close>

theorem get_returns_table_fields:
  assumes "method req = ''GET''" "rt \<in> set api_routes" "path req = route_path rt"
  shows "\<exists>payload fields.
           app req now = \<lparr>status_code = 200, body = Json payload\<rparr>
         \<and> map_of spec_interface_table (path req) = Some fields
         \<and> set fields \<subseteq> set (obj_keys payload)
         \<and> obj_keys payload =
             (if path req = ''/''
              then [''message'', ''version'', ''description'', ''status'', ''timestamp'',
                    ''endpoints'']
              else fields)"
proof -
  have a: "app req now = \<lparr>status_code = 200, body = endpoint rt now\<rparr>"
    using assms by (rule app_GET)
  from api_routes_cases [OF assms(2)] show ?thesis
  proof (elim disjE conjE)
    assume "route_path rt = ''/''" "endpoint rt = (\<lambda>now. Json (root now))"
    then show ?thesis using a assms(3) by (simp add: table_lookup handler_keys)
  next
    assume "route_path rt = ''/health''" "endpoint rt = (\<lambda>now. Json (health_check now))"
    then show ?thesis using a assms(3) by (simp add: table_lookup handler_keys)
  next
    assume "route_path rt = ''/api/v1/status''" "endpoint rt = (\<lambda>now. Json (api_status now))"
    then show ?thesis using a assms(3) by (simp add: table_lookup handler_keys)
  next
    assume "route_path rt = ''/api/v1/agents''" "endpoint rt = (\<lambda>now. Json list_agents)"
    then show ?thesis using a assms(3) by (simp add: table_lookup handler_keys)
  next
    assume "route_path rt = ''/api/v1/metrics''" "endpoint rt = (\<lambda>now. Json get_metrics)"
    then show ?thesis using a assms(3) by (simp add: table_lookup handler_keys)
  qed
qed

theorem get_returns_table_fields_witness:
  "\<exists>payload.
      app \<lparr>method = ''GET'', path = ''/health'', headers = []\<rparr>
          \<lparr>year = 2024, month = 2, day = 29, hour = 13, minute = 5, second = 9,
            microsecond = 1234\<rparr>
        = \<lparr>status_code = 200, body = Json payload\<rparr>
    \<and> obj_keys payload = [''status'', ''timestamp'', ''service'', ''version'']"
proof -
  have r: "\<lparr>route_path = ''/health'', route_methods = [''GET''],
        endpoint = (\<lambda>now. Json (health_check now))\<rparr> \<in> set api_routes"
    by (simp add: api_routes_def)
  show ?thesis
    using get_returns_table_fields [OF _ r,
        of "\<lparr>method = ''GET'', path = ''/health'', headers = []\<rparr>"
           "\<lparr>year = 2024, month = 2, day = 29, hour = 13, minute = 5, second = 9,
             microsecond = 1234\<rparr>"]
    by (auto simp: table_lookup)
qed

subsection \<open>Startup and the listening port\<close>

lemma char_of_eq_iff: "char_of (n::nat) = c \<longleftrightarrow> n mod 256 = of_char c"
proof
  assume "char_of n = c"
  then have "of_char (char_of n) = (of_char c :: nat)" by simp
  then show "n mod 256 = of_char c" by simp
next
  assume a: "n mod 256 = of_char c"
  have "char_of n = char_of (n mod 256)" by (simp add: char_of_mod_256)
  also have "\<dots> = c" unfolding a by simp
  finally show "char_of n = c" .
qed

lemma eq_char_of_iff: "c = char_of (n::nat) \<longleftrightarrow> n mod 256 = of_char c"
  using char_of_eq_iff [of n c] by auto

lemmas int_eval = int_of_str_def TransformDecimalAndSpaceToASCII_def pystr_of_def
  int_literal_def strip_def Py_ISSPACE_def int_magnitude_def is_digit_def digit_val_def
  count_digits_def exceeds_max_str_digits_def char_of_eq_iff eq_char_of_iff

text \<open>
  Examples of \<open>int\<close> on the interpreter of the examples: seven-bit text, a no-break
  space before the digits, Arabic-Indic digits.
\<close>

lemma int_of_str_samples:
  "int_of_str cpython_3_11 (pystr_of ''9000'') = Inr 9000"
  "int_of_str (cpython_3_11\<lparr>int_max_str_digits := 0\<rparr>) (pystr_of ''9000'') = Inr 9000"
  "int_of_str cpython_3_11 (pystr_of ''abc'') = Inl ValueError"
  by (simp_all add: int_eval)

lemma int_of_str_unicode_samples:
  "int_of_str cpython_3_11 (160 # pystr_of ''9000'') = Inr 9000"
  "int_of_str cpython_3_11 [1640, 1632, 1632, 1632] = Inr 8000"
  by (simp_all add: int_eval cpython_3_11_def unicode_blanks_def unicode_digit_blocks_def)

text \<open>The digit limit changes whether a numeral is read, never the value read.\<close>

lemma transform_code_points_limit:
  "transform_code_points (I\<lparr>int_max_str_digits := l\<rparr>) u = transform_code_points I u"
  by (induction u) (simp_all split: option.splits)

lemma Transform_limit:
  "TransformDecimalAndSpaceToASCII (I\<lparr>int_max_str_digits := l\<rparr>) u
     = TransformDecimalAndSpaceToASCII I u"
  by (simp add: TransformDecimalAndSpaceToASCII_def transform_code_points_limit)

lemma int_of_str_limit_agree:
  assumes "int_of_str (I\<lparr>int_max_str_digits := l\<rparr>) u = Inr p"
    and "int_of_str (I\<lparr>int_max_str_digits := l'\<rparr>) u = Inr p'"
  shows "p = p'"
  using assms
  by (auto simp: int_of_str_def Transform_limit split: option.splits if_splits)

text \<open>
  A numeral of \<open>k\<close> zeros before \<open>8000\<close> has \<open>k + 4\<close> digits: it is read as
  8000 unless the limit refuses it.
\<close>

lemma strip_id:
  assumes "s \<noteq> []" "\<not> Py_ISSPACE (hd s)" "\<not> Py_ISSPACE (last s)"
  shows "strip s = s"
proof -
  have a: "dropWhile Py_ISSPACE s = s" using assms(1,2) by (cases s) simp_all
  obtain x xs where r: "rev s = x # xs" using assms(1) by (cases "rev s") auto
  then have "x = last s" using assms(1) by (metis hd_rev list.sel(1))
  then have d: "dropWhile Py_ISSPACE (x # xs) = x # xs" using assms(3) by simp
  have "dropWhile Py_ISSPACE (rev s) = rev s" unfolding r by (rule d)
  then show ?thesis by (simp add: strip_def a)
qed

lemma int_digits_zeros:
  "int_digits acc (replicate k (CHR ''0'') @ s) = int_digits (acc * 10 ^ k) s"
proof (induction k arbitrary: acc)
  case 0
  then show ?case by simp
next
  case (Suc k)
  have "digit_val (CHR ''0'') = Some 0" by (simp add: digit_val_def)
  then show ?case using Suc [of "acc * 10"] by (simp add: algebra_simps)
qed

lemma int_literal_zeros:
  "int_literal (replicate k (CHR ''0'') @ ''8000'') = Some (k + 4, 8000)"
proof -
  let ?s = "replicate k (CHR ''0'') @ ''8000''"
  have hd: "hd ?s = CHR ''0'' \<or> hd ?s = CHR ''8''" by (cases k) simp_all
  have ne: "?s \<noteq> []" by simp
  have sp: "\<not> Py_ISSPACE (hd ?s)" using hd by (auto simp: Py_ISSPACE_def)
  have "\<not> Py_ISSPACE (last ?s)" by (simp add: Py_ISSPACE_def)
  then have st: "strip ?s = ?s" using ne sp by (intro strip_id)
  obtain c cs where cs: "?s = c # cs" using ne by (cases ?s) auto
  then have c: "c = CHR ''0'' \<or> c = CHR ''8''" using hd by simp
  have dg: "is_digit (hd ?s)" using hd by (auto simp: is_digit_def digit_val_def)
  have "int_digits 0 ?s = int_digits (0 * 10 ^ k) ''8000''" by (rule int_digits_zeros)
  also have "\<dots> = Some 8000" by (simp add: digit_val_def)
  finally have mg: "int_magnitude ?s = Some 8000" using dg ne by (simp add: int_magnitude_def)
  have cnt: "count_digits ?s = k + 4"
    by (simp add: count_digits_def is_digit_def digit_val_def)
  have sel: "(case ?s of
                [] \<Rightarrow> (False, ?s)
              | c # cs \<Rightarrow> if c = CHR ''-'' then (True, cs)
                          else if c = CHR ''+'' then (False, cs) else (False, ?s))
             = (False, ?s)"
    unfolding cs using c by auto
  show ?thesis
    unfolding int_literal_def Let_def st sel by (simp add: mg cnt)
qed

lemma int_of_str_zeros:
  "int_of_str I (replicate k 48 @ pystr_of ''8000'')
     = (if exceeds_max_str_digits I (k + 4) then Inl ValueError else Inr 8000)"
proof -
  have a: "list_all (\<lambda>ch. ch < 128) (replicate k (48::nat) @ pystr_of ''8000'')"
    by (simp add: pystr_of_def list_all_iff)
  have "map char_of (replicate k (48::nat) @ pystr_of ''8000'') = replicate k (CHR ''0'') @ ''8000''"
    by (simp add: pystr_of_def char_of_eq_iff)
  then have "TransformDecimalAndSpaceToASCII I (replicate k 48 @ pystr_of ''8000'')
               = replicate k (CHR ''0'') @ ''8000''"
    using a by (simp add: TransformDecimalAndSpaceToASCII_def)
  then show ?thesis by (simp add: int_of_str_def int_literal_zeros)
qed

lemma long_numeral:
  "int_of_str cpython_3_11 (replicate 4297 48 @ pystr_of ''8000'') = Inl ValueError"
  "int_of_str (cpython_3_11\<lparr>int_max_str_digits := 0\<rparr>) (replicate 4297 48 @ pystr_of ''8000'')
     = Inr 8000"
  by (simp_all add: int_of_str_zeros exceeds_max_str_digits_def cpython_3_11_def)

text \<open>
  C6: when \<open>PORT\<close> is unset the server listens on port 8000; when \<open>PORT\<close> is set
  to a string that \<open>int\<close> reads, the server listens on that port; and two runs whose
  environments agree on \<open>PORT\<close>, whatever their other variables and whatever digit
  limit those give the interpreter, start the same server whenever both start one: no
  other variable selects the port.
\<close>

theorem port_from_environment:
  "(e1 ''PORT'' = None \<longrightarrow>
      (\<exists>run. main I e1 reqs = Inr run \<and> port (listening run) = 8000))
   \<and> (e2 ''PORT'' = Some s \<and> int_of_str I s = Inr p \<longrightarrow>
      (\<exists>run. main I e2 reqs = Inr run \<and> port (listening run) = p))
   \<and> (e3 ''PORT'' = e4 ''PORT''
        \<and> main (I\<lparr>int_max_str_digits := l3\<rparr>) e3 reqs = Inr run3
        \<and> main (I\<lparr>int_max_str_digits := l4\<rparr>) e4 reqs = Inr run4 \<longrightarrow>
      run3 = run4)"
proof (intro conjI impI)
  assume "e1 ''PORT'' = None"
  then show "\<exists>run. main I e1 reqs = Inr run \<and> port (listening run) = 8000"
    by (simp add: main_def getenv_def uvicorn_run_def)
next
  assume "e2 ''PORT'' = Some s \<and> int_of_str I s = Inr p"
  then show "\<exists>run. main I e2 reqs = Inr run \<and> port (listening run) = p"
    by (simp add: main_def getenv_def uvicorn_run_def)
next
  assume a: "e3 ''PORT'' = e4 ''PORT''
        \<and> main (I\<lparr>int_max_str_digits := l3\<rparr>) e3 reqs = Inr run3
        \<and> main (I\<lparr>int_max_str_digits := l4\<rparr>) e4 reqs = Inr run4"
  show "run3 = run4"
  proof (cases "e3 ''PORT''")
    case None
    then have "e4 ''PORT'' = None" using a by simp
    then show ?thesis using a None by (auto simp: main_def getenv_def)
  next
    case (Some u)
    then have u4: "e4 ''PORT'' = Some u" using a by simp
    obtain p3 where p3: "int_of_str (I\<lparr>int_max_str_digits := l3\<rparr>) u = Inr p3"
      and r3: "run3 = uvicorn_run \<lparr>app_import = ''main:app'', host = ''0.0.0.0'', port = p3,
                            reload = True\<rparr> reqs"
      using a Some by (auto simp: main_def getenv_def split: sum.splits)
    obtain p4 where p4: "int_of_str (I\<lparr>int_max_str_digits := l4\<rparr>) u = Inr p4"
      and r4: "run4 = uvicorn_run \<lparr>app_import = ''main:app'', host = ''0.0.0.0'', port = p4,
                            reload = True\<rparr> reqs"
      using a u4 by (auto simp: main_def getenv_def split: sum.splits)
    have "p3 = p4" using p3 p4 by (rule int_of_str_limit_agree)
    then show ?thesis using r3 r4 by simp
  qed
qed

theorem port_from_environment_witness:
  "(\<exists>run. main cpython_3_11 Map.empty [] = Inr run \<and> port (listening run) = 8000)
   \<and> (\<exists>run. main cpython_3_11 [''PORT'' \<mapsto> pystr_of ''9000''] [] = Inr run
          \<and> port (listening run) = 9000)
   \<and> main (cpython_3_11\<lparr>int_max_str_digits := 0\<rparr>)
        [''PYTHONINTMAXSTRDIGITS'' \<mapsto> pystr_of ''0'', ''PORT'' \<mapsto> pystr_of ''9000''] []
     = main (cpython_3_11\<lparr>int_max_str_digits := 4300\<rparr>) [''PORT'' \<mapsto> pystr_of ''9000''] []"
proof -
  let ?e3 = "[''PYTHONINTMAXSTRDIGITS'' \<mapsto> pystr_of ''0'', ''PORT'' \<mapsto> pystr_of ''9000'']"
  let ?e4 = "[''PORT'' \<mapsto> pystr_of ''9000'']"
  let ?run = "uvicorn_run \<lparr>app_import = ''main:app'', host = ''0.0.0.0'', port = 9000,
                            reload = True\<rparr> []"
  have c: "cpython_3_11\<lparr>int_max_str_digits := 4300\<rparr> = cpython_3_11"
    by (simp add: cpython_3_11_def)
  have m3: "main (cpython_3_11\<lparr>int_max_str_digits := 0\<rparr>) ?e3 [] = Inr ?run"
    by (simp add: main_def getenv_def int_of_str_samples)
  have m4: "main (cpython_3_11\<lparr>int_max_str_digits := 4300\<rparr>) ?e4 [] = Inr ?run"
    by (simp add: c main_def getenv_def int_of_str_samples)
  have p: "?e3 ''PORT'' = ?e4 ''PORT''" by simp
  note t = port_from_environment [of Map.empty cpython_3_11 "[]" ?e4 "pystr_of ''9000''" 9000
      ?e3 ?e4 0 ?run 4300 ?run]
  show ?thesis using t p m3 m4 by (simp add: int_of_str_samples)
qed

text \<open>
  C10: when \<open>PORT\<close> is set to a string that \<open>int\<close> does not read (it is no
  numeral, or it has more digits than the interpreter's limit allows), the script ends
  with \<open>ValueError\<close> before \<open>uvicorn.run\<close> is reached: whatever requests would
  arrive, there is no running server and none of them is answered.
\<close>

theorem bad_port_fails_startup:
  assumes "environ ''PORT'' = Some s" "int_of_str I s = Inl ValueError"
  shows "main I environ reqs = Inl ValueError"
  using assms by (simp add: main_def getenv_def)

theorem bad_port_fails_startup_witness:
  "int_of_str cpython_3_11 (pystr_of ''abc'') = Inl ValueError
   \<and> main cpython_3_11 [''PORT'' \<mapsto> pystr_of ''abc'']
        [(\<lparr>method = ''GET'', path = ''/health'', headers = []\<rparr>,
          \<lparr>year = 2024, month = 2, day = 29, hour = 13, minute = 5, second = 9,
            microsecond = 1234\<rparr>)]
       = Inl ValueError
   \<and> int_of_str cpython_3_11 (replicate 4297 48 @ pystr_of ''8000'') = Inl ValueError
   \<and> main cpython_3_11 [''PORT'' \<mapsto> replicate 4297 48 @ pystr_of ''8000''] []
       = Inl ValueError"
  using bad_port_fails_startup [of "[''PORT'' \<mapsto> pystr_of ''abc'']" "pystr_of ''abc''"
      cpython_3_11
      "[(\<lparr>method = ''GET'', path = ''/health'', headers = []\<rparr>,
          \<lparr>year = 2024, month = 2, day = 29, hour = 13, minute = 5, second = 9,
            microsecond = 1234\<rparr>)]"]
    bad_port_fails_startup [of "[''PORT'' \<mapsto> replicate 4297 48 @ pystr_of ''8000'']"
      "replicate 4297 48 @ pystr_of ''8000''" cpython_3_11 "[]"]
  by (simp add: int_of_str_samples long_numeral)

subsection \<open>Requests that reach no handler\<close>

lemma not_2xx: "\<not> is_2xx not_found" "\<not> is_2xx \<lparr>status_code = 307, body = b\<rparr>"
  by (simp_all add: is_2xx_def not_found_def http_exception_handler_def)

lemma app_preflight:
  assumes "is_preflight req"
  shows "status_code (app req now) = 200 \<or> status_code (app req now) = 400"
  using assms
  by (auto simp: is_preflight_def app_def CORSMiddleware_call_def preflight_response_def
        split: if_splits)

lemma matches_path:
  "(matches rt (req\<lparr>path := p\<rparr>) \<noteq> MatchNone) = path_regex_match (route_path rt) p"
  by (simp add: matches_def)

lemma nope_unmatched:
  "\<forall>rt\<in>set routes. matches rt \<lparr>method = ''GET'', path = ''/nope'', headers = []\<rparr> = MatchNone"
  by (simp add: routes_def FastAPI_setup_def api_routes_def matches_def path_regex_match_def)

lemma health_slash_unmatched:
  "\<forall>rt\<in>set routes. matches rt \<lparr>method = ''GET'', path = ''/health/'', headers = []\<rparr> = MatchNone"
  by (simp add: routes_def FastAPI_setup_def api_routes_def matches_def path_regex_match_def)

lemma redirect_samples:
  "redirect_path ''/nope'' = ''/nope/''"
  "redirect_path ''/health/'' = ''/health''"
  "\<not> list_ex (\<lambda>rt. path_regex_match (route_path rt) ''/nope/'') routes"
  "list_ex (\<lambda>rt. path_regex_match (route_path rt) ''/health'') routes"
  by (simp_all add: redirect_path_def rstrip_slash_def routes_def FastAPI_setup_def
        api_routes_def path_regex_match_def)

text \<open>
  C7, as stated, gives a status outside 2xx to every request whose path is not a
  defined route. A CORS preflight (an OPTIONS request with an Origin and an
  Access-Control-Request-Method header) is answered by the middleware before routing:
  for a path that no route has, the answer is 200.
\<close>

theorem unknown_path_counterexample:
  "path \<lparr>method = ''OPTIONS'', path = ''/nope'',
          headers = [(''origin'', ''http://localhost:3000''),
                     (''access-control-request-method'', ''GET'')]\<rparr>
     \<notin> set (map route_path routes)
   \<and> app \<lparr>method = ''OPTIONS'', path = ''/nope'',
          headers = [(''origin'', ''http://localhost:3000''),
                     (''access-control-request-method'', ''GET'')]\<rparr>
         \<lparr>year = 2024, month = 2, day = 29, hour = 13, minute = 5, second = 9,
           microsecond = 1234\<rparr>
       = \<lparr>status_code = 200, body = PlainText ''OK''\<rparr>"
  by (simp add: routes_def FastAPI_setup_def api_routes_def app_def CORSMiddleware_call_def
        preflight_response_def ALL_METHODS_def)

text \<open>
  C7, amended: a request that is not a CORS preflight and whose path matches no route
  of the table is answered by the framework with a status outside 2xx: the redirect 307
  exactly when the path with its trailing slash added or removed matches a route, and
  404 otherwise. A CORS preflight is answered by the middleware with 200 or 400,
  whatever its path. No handler defines an error path: a route that takes a request
  answers 200 with the content of its endpoint.
\<close>

theorem unmatched_request_not_2xx:
  "(\<not> is_preflight req \<and> (\<forall>rt\<in>set routes. matches rt req = MatchNone) \<longrightarrow>
       app req now =
         (if list_ex (\<lambda>rt. path_regex_match (route_path rt) (redirect_path (path req))) routes
          then \<lparr>status_code = 307, body = Location (redirect_path (path req))\<rparr>
          else not_found)
       \<and> \<not> is_2xx (app req now))
   \<and> (is_preflight req' \<longrightarrow>
         status_code (app req' now) = 200 \<or> status_code (app req' now) = 400)
   \<and> (matches rt r = MatchFull \<longrightarrow>
         handle rt r now = \<lparr>status_code = 200, body = endpoint rt now\<rparr>)"
proof (intro conjI impI)
  assume a: "\<not> is_preflight req \<and> (\<forall>rt\<in>set routes. matches rt req = MatchNone)"
  then have "app req now = Router_app req now" by (simp add: app_not_preflight)
  then show e: "app req now =
       (if list_ex (\<lambda>rt. path_regex_match (route_path rt) (redirect_path (path req))) routes
        then \<lparr>status_code = 307, body = Location (redirect_path (path req))\<rparr>
        else not_found)"
    using a Router_app_no_match [of req now] by (simp add: matches_path)
  then show "\<not> is_2xx (app req now)"
    by (simp add: not_2xx split: if_splits)
next
  assume "is_preflight req'"
  then show "status_code (app req' now) = 200 \<or> status_code (app req' now) = 400"
    by (rule app_preflight)
next
  assume "matches rt r = MatchFull"
  then show "handle rt r now = \<lparr>status_code = 200, body = endpoint rt now\<rparr>"
    by (rule handle_full)
qed

theorem unmatched_request_not_2xx_witness:
  "\<not> is_preflight \<lparr>method = ''GET'', path = ''/nope'', headers = []\<rparr>
   \<and> list_all (\<lambda>rt. matches rt \<lparr>method = ''GET'', path = ''/nope'', headers = []\<rparr> = MatchNone)
        routes
   \<and> app \<lparr>method = ''GET'', path = ''/nope'', headers = []\<rparr>
         \<lparr>year = 2024, month = 2, day = 29, hour = 13, minute = 5, second = 9,
           microsecond = 1234\<rparr>
       = \<lparr>status_code = 404, body = Json (JObj [(''detail'', JStr ''Not Found'')])\<rparr>
   \<and> \<not> is_preflight \<lparr>method = ''GET'', path = ''/health/'', headers = []\<rparr>
   \<and> list_all (\<lambda>rt. matches rt \<lparr>method = ''GET'', path = ''/health/'', headers = []\<rparr> = MatchNone)
        routes
   \<and> app \<lparr>method = ''GET'', path = ''/health/'', headers = []\<rparr>
         \<lparr>year = 2024, month = 2, day = 29, hour = 13, minute = 5, second = 9,
           microsecond = 1234\<rparr>
       = \<lparr>status_code = 307, body = Location ''/health''\<rparr>"
proof -
  let ?r = "\<lparr>method = ''GET'', path = ''/nope'', headers = []\<rparr>"
  let ?s = "\<lparr>method = ''GET'', path = ''/health/'', headers = []\<rparr>"
  let ?d = "\<lparr>year = 2024, month = 2, day = 29, hour = 13, minute = 5, second = 9,
           microsecond = 1234\<rparr>"
  have p: "\<not> is_preflight ?r" "\<not> is_preflight ?s" by (simp_all add: is_preflight_def)
  have "app ?r ?d = \<lparr>status_code = 404, body = Json (JObj [(''detail'', JStr ''Not Found'')])\<rparr>"
    using unmatched_request_not_2xx [of ?r ?d] p(1) nope_unmatched
    by (simp add: redirect_samples not_found_def http_exception_handler_def)
  moreover have "app ?s ?d = \<lparr>status_code = 307, body = Location ''/health''\<rparr>"
    using unmatched_request_not_2xx [of ?s ?d] p(2) health_slash_unmatched
    by (simp add: redirect_samples)
  ultimately show ?thesis
    using p nope_unmatched health_slash_unmatched by (simp add: list_all_iff)
qed

end
